theory Spec2Isabelle
  imports Main
begin

section \<open>Values the handlers pass around\<close>

text \<open>
  The model follows \<^verbatim>\<open>pkg/service/rtcv2service.go\<close>: the two HTTP handlers
  \<^verbatim>\<open>handlePost\<close> (POST /rtc/v2) and \<^verbatim>\<open>handleParticipantPatch\<close>
  (PATCH /rtc/v2/{participant_id}) and the helper \<^verbatim>\<open>validateInternal\<close>.
  Go strings and byte slices are \<open>string\<close>.
\<close>

type_synonym bytes = string
type_synonym RoomName = string
type_synonym ParticipantIdentity = string
type_synonym ParticipantID = string
type_synonym Topic = string

subsection \<open>Go errors\<close>

text \<open>
  The codes of \<^verbatim>\<open>psrpc.ErrorCode\<close> that the handler tells apart, and all others.
\<close>

datatype ErrorCode = NotFound | InvalidArgument | OtherCode string

text \<open>
  A Go \<^verbatim>\<open>error\<close> value: a plain error with its text (\<^verbatim>\<open>errors.New\<close>),
  a \<^verbatim>\<open>psrpc.Error\<close> with its code and text, or an error that wraps another one
  (\<^verbatim>\<open>fmt.Errorf\<close> with \<^verbatim>\<open>%w\<close>) and has a text of its own. The nil error is
  \<open>None\<close> of \<open>error option\<close>.
\<close>

datatype error =
    New string
  | PsrpcError ErrorCode string
  | Wrapped string error

text \<open>\<^verbatim>\<open>err.Error()\<close>\<close>

fun Error :: "error \<Rightarrow> string" where
  "Error (New s) = s"
| "Error (PsrpcError c s) = s"
| "Error (Wrapped s e) = s"

text \<open>
  \<^verbatim>\<open>var pe psrpc.Error; errors.As(err, &pe)\<close>: the first \<^verbatim>\<open>psrpc.Error\<close> in the
  chain of wrapped errors, as the pair of \<^verbatim>\<open>pe.Code()\<close> and \<^verbatim>\<open>pe.Error()\<close>.
\<close>

fun errors_As_psrpc :: "error \<Rightarrow> (ErrorCode \<times> string) option" where
  "errors_As_psrpc (New s) = None"
| "errors_As_psrpc (PsrpcError c s) = Some (c, s)"
| "errors_As_psrpc (Wrapped s e) = errors_As_psrpc e"

definition errFragmentsInHTTP :: error where
  "errFragmentsInHTTP = New ''should not get fragments via HTTP request''"

definition errUnknownMessageType :: error where
  "errUnknownMessageType = New ''unknown message type''"

text \<open>\<^verbatim>\<open>fmt.Errorf("unsupported content-type: %s", ct)\<close>\<close>

definition errUnsupportedContentType :: "string \<Rightarrow> error" where
  "errUnsupportedContentType ct = New (''unsupported content-type: '' @ ct)"

text \<open>\<^verbatim>\<open>fmt.Errorf("could not read request body: %w", err)\<close>\<close>

definition errReadBody :: "error \<Rightarrow> error" where
  "errReadBody err = Wrapped (''could not read request body: '' @ Error err) err"

text \<open>\<^verbatim>\<open>fmt.Errorf("could not unmarshal request: %w", err)\<close>\<close>

definition errUnmarshal :: "error \<Rightarrow> error" where
  "errUnmarshal err = Wrapped (''could not unmarshal request: '' @ Error err) err"

subsection \<open>HTTP status codes of \<^verbatim>\<open>net/http\<close>\<close>

definition StatusOK :: nat where "StatusOK = 200"
definition StatusBadRequest :: nat where "StatusBadRequest = 400"
definition StatusUnauthorized :: nat where "StatusUnauthorized = 401"
definition StatusNotFound :: nat where "StatusNotFound = 404"
definition StatusInternalServerError :: nat where "StatusInternalServerError = 500"

subsection \<open>Protocol messages\<close>

text \<open>
  The protocol types come from \<^verbatim>\<open>github.com/livekit/protocol\<close>. The handlers read
  the fields below; a message whose fields they never read is kept as an opaque value.
\<close>

datatype ClientInfo = MkClientInfo string
datatype CreateRoomRequest = MkCreateRoomRequest string
datatype Fragment = MkFragment bytes
datatype Room = MkRoom string
datatype ParticipantInfo = MkParticipantInfo string

record ConnectRequest =
  Metadata :: string
  ParticipantAttributes :: "string \<rightharpoonup> string"
  ClientInfo :: "ClientInfo option"

text \<open>
  \<^verbatim>\<open>livekit.ConnectResponse\<close>: \<^verbatim>\<open>Room\<close> and \<^verbatim>\<open>Participant\<close> are pointers,
  nil is \<open>None\<close>.
\<close>

record ConnectResponse =
  Room :: "Room option"
  Participant :: "ParticipantInfo option"

text \<open>
  \<^verbatim>\<open>innerMsg.GetMessage()\<close> of a \<^verbatim>\<open>Signalv2ClientMessage\<close>: the
  \<^verbatim>\<open>ConnectRequest\<close> variant, another variant (with the name of its Go type, which
  \<^verbatim>\<open>%T\<close> prints), or nil when no variant is set (the getter is nil-safe, so a nil
  \<^verbatim>\<open>innerMsg\<close> reads the same).
\<close>

datatype Signalv2ClientMessage =
    ClientMessage_ConnectRequest ConnectRequest
  | ClientMessage_Other string
  | ClientMessage_None

datatype Signalv2ServerMessage =
    ServerMessage_ConnectResponse "ConnectResponse option"
  | ServerMessage_Other string

record Envelope =
  ClientMessages :: "Signalv2ClientMessage list"
  ServerMessages :: "Signalv2ServerMessage list"

text \<open>
  \<^verbatim>\<open>wireMessage.GetMessage()\<close> of a \<^verbatim>\<open>Signalv2WireMessage\<close>: an envelope, a
  fragment, or nil when no variant is set. The handler reads the envelope through the
  nil-safe getter \<^verbatim>\<open>GetClientMessages\<close>, so a nil envelope pointer reads as the
  envelope with no messages.
\<close>

datatype Signalv2WireMessage =
    WireMessage_Envelope Envelope
  | WireMessage_Fragment Fragment
  | WireMessage_None

subsection \<open>Grants and the RPC payloads\<close>

datatype VideoGrant = MkVideoGrant string

text \<open>\<^verbatim>\<open>auth.ClaimGrants\<close>: the identity and the video grant (a pointer).\<close>

record ClaimGrants =
  Identity :: string
  Video :: "VideoGrant option"

record ValidateConnectRequestParams =
  metadata :: string
  attributes :: "string \<rightharpoonup> string"

text \<open>
  What \<^verbatim>\<open>ValidateConnectRequest\<close> returns on success; \<open>grants\<close> is then a non-nil
  pointer.
\<close>

record ValidateConnectRequestResult =
  roomName :: RoomName
  grants :: ClaimGrants
  createRoomRequest :: "CreateRoomRequest option"

record RelaySignalv2ConnectRequest =
  GrantsJson :: string
  CreateRoom :: "CreateRoomRequest option"
  ConnectRequest :: ConnectRequest

record RelaySignalv2ConnectResponse =
  ConnectResponse :: "ConnectResponse option"

record RelaySignalv2ParticipantRequest =
  Room_name :: string
  ParticipantIdentity :: string
  ParticipantId :: string
  WireMessage :: Signalv2WireMessage

record RelaySignalv2ParticipantResponse =
  ResponseWireMessage :: Signalv2WireMessage

datatype LimitConfig = MkLimitConfig "nat list"

section \<open>The request and the response writer\<close>

text \<open>
  What the handlers read of \<^verbatim>\<open>*http.Request\<close>: the header value
  \<^verbatim>\<open>r.Header.Get("Content-type")\<close>, the outcome of
  \<^verbatim>\<open>ioutil.ReadAll(r.Body)\<close>, the path value \<^verbatim>\<open>participant_id\<close>, and what
  \<^verbatim>\<open>GetGrants\<close> and \<^verbatim>\<open>EnsureJoinPermission\<close> (functions of the package that are
  not in this file) return on \<^verbatim>\<open>r.Context()\<close>.
\<close>

record Request =
  ContentType :: string
  Body :: "error + bytes"
  PathValue_participant_id :: string
  GetGrants :: "ClaimGrants option"
  EnsureJoinPermission :: "error + RoomName"

text \<open>
  What has been written to the body: raw bytes, or the JSON object of an error response
  with its code and message.
\<close>

datatype body_part = Bytes bytes | JsonError nat string

text \<open>
  \<^verbatim>\<open>http.ResponseWriter\<close>: the header map \<^verbatim>\<open>w.Header()\<close>, the status code
  once it is written (\<open>None\<close> before), and the body written so far.
\<close>

record ResponseWriter =
  header :: "(string \<times> string) list"
  status :: "nat option"
  body :: "body_part list"

definition newResponseWriter :: ResponseWriter where
  "newResponseWriter = \<lparr>header = [], status = None, body = []\<rparr>"

text \<open>
  \<^verbatim>\<open>w.WriteHeader(code)\<close>: the first call fixes the status code; \<^verbatim>\<open>net/http\<close> ignores
  (and logs as superfluous) every later call.
\<close>

definition WriteHeader :: "ResponseWriter \<Rightarrow> nat \<Rightarrow> ResponseWriter" where
  "WriteHeader w code = (if status w = None then w\<lparr>status := Some code\<rparr> else w)"

text \<open>
  \<^verbatim>\<open>w.Write(b)\<close>: when the header is not yet written, \<^verbatim>\<open>net/http\<close> first does
  \<^verbatim>\<open>WriteHeader(http.StatusOK)\<close>.
\<close>

definition Write :: "ResponseWriter \<Rightarrow> body_part \<Rightarrow> ResponseWriter" where
  "Write w b = (let w' = WriteHeader w StatusOK in w'\<lparr>body := body w' @ [b]\<rparr>)"

text \<open>\<^verbatim>\<open>w.Header().Add(key, value)\<close>\<close>

definition Header_Add :: "ResponseWriter \<Rightarrow> string \<Rightarrow> string \<Rightarrow> ResponseWriter" where
  "Header_Add w k v = w\<lparr>header := header w @ [(k, v)]\<rparr>"

text \<open>
  Modelled from the spec: the text of the error response when \<^verbatim>\<open>HandleErrorJson\<close> is
  given a nil error ("a generic internal-error message is substituted").
\<close>

definition internalErrorMessage :: string where
  "internalErrorMessage = ''internal error''"

text \<open>
  Modelled from the spec: \<^verbatim>\<open>HandleErrorJson(w, r, status, err)\<close> is a function of the
  package that is not in this file. It turns a failure into one HTTP status and one JSON
  error body with the code and the message text of the error.
\<close>

definition writeErrorJson :: "ResponseWriter \<Rightarrow> nat \<Rightarrow> error option \<Rightarrow> ResponseWriter" where
  "writeErrorJson w code err =
     Write (WriteHeader w code)
       (JsonError code (case err of None \<Rightarrow> internalErrorMessage | Some e \<Rightarrow> Error e))"

section \<open>The service and its collaborators\<close>

text \<open>
  The fields of \<^verbatim>\<open>RTCv2Service\<close> (limits, room allocator, router, topic formatter,
  participant client), the functions of the package that this file calls and does not
  define (\<^verbatim>\<open>ValidateConnectRequest\<close>, \<^verbatim>\<open>AugmentClientInfo\<close> and the four error
  values), and the library functions \<^verbatim>\<open>json.Marshal\<close>, \<^verbatim>\<open>proto.Unmarshal\<close> and
  \<^verbatim>\<open>proto.Marshal\<close>. Each is a function of the arguments the handler gives it; the
  request context is part of the request. A collaborator that returns no error returns
  a value (a non-nil pointer).
  \<^verbatim>\<open>ValidateConnectRequest\<close> returns \<open>Inl (code, err)\<close> when its error is not nil and
  \<open>Inr (res, code)\<close> otherwise.
\<close>

record Service =
  limits :: LimitConfig
  SelectRoomNode :: "RoomName \<Rightarrow> string \<Rightarrow> error option"
  HandleParticipantConnectRequest ::
    "RoomName \<Rightarrow> ParticipantIdentity \<Rightarrow> RelaySignalv2ConnectRequest
      \<Rightarrow> error + RelaySignalv2ConnectResponse"
  ParticipantTopic :: "RoomName \<Rightarrow> ParticipantIdentity \<Rightarrow> Topic"
  RelaySignalv2Participant ::
    "Topic \<Rightarrow> RelaySignalv2ParticipantRequest \<Rightarrow> error + RelaySignalv2ParticipantResponse"
  ValidateConnectRequest ::
    "Request \<Rightarrow> LimitConfig \<Rightarrow> ValidateConnectRequestParams
      \<Rightarrow> (nat \<times> error) + (ValidateConnectRequestResult \<times> nat)"
  AugmentClientInfo :: "ClientInfo option \<Rightarrow> Request \<Rightarrow> ClientInfo option"
  ErrPermissionDenied :: error
  ErrNoRoomName :: error
  ErrIdentityEmpty :: error
  ErrParticipantSidEmpty :: error
  json_Marshal :: "ClaimGrants \<Rightarrow> error + string"
  proto_Unmarshal :: "bytes \<Rightarrow> error + Signalv2WireMessage"
  proto_Marshal :: "Signalv2WireMessage \<Rightarrow> error + bytes"

subsection \<open>The calls a handler makes\<close>

text \<open>
  Every call a handler makes to the request body, a collaborator or the error writer is
  recorded, in order, next to the response writer.
\<close>

datatype call =
    Call_ReadAll
  | Call_Unmarshal bytes
  | Call_ValidateConnectRequest ValidateConnectRequestParams
  | Call_json_Marshal ClaimGrants
  | Call_AugmentClientInfo "ClientInfo option"
  | Call_SelectRoomNode RoomName string
  | Call_HandleParticipantConnectRequest RoomName ParticipantIdentity RelaySignalv2ConnectRequest
  | Call_Marshal Signalv2WireMessage
  | Call_GetGrants
  | Call_EnsureJoinPermission
  | Call_ParticipantTopic RoomName ParticipantIdentity
  | Call_RelaySignalv2Participant Topic RelaySignalv2ParticipantRequest
  | Call_HandleErrorJson nat "error option"

record state =
  response :: ResponseWriter
  calls :: "call list"

definition newState :: state where
  "newState = \<lparr>response = newResponseWriter, calls = []\<rparr>"

definition called :: "call \<Rightarrow> state \<Rightarrow> state" where
  "called c st = st\<lparr>calls := calls st @ [c]\<rparr>"

definition HandleErrorJson :: "state \<Rightarrow> nat \<Rightarrow> error option \<Rightarrow> state" where
  "HandleErrorJson st code err =
     (called (Call_HandleErrorJson code err) st)
       \<lparr>response := writeErrorJson (response st) code err\<rparr>"

text \<open>How a handler, or one round of its loop, ends.\<close>

datatype flow = Continue | Return | Panic

section \<open>validateInternal\<close>

definition validateInternal ::
  "Service \<Rightarrow> Request \<Rightarrow> ConnectRequest \<Rightarrow> state
    \<Rightarrow> ((nat \<times> error) + (RoomName \<times> ParticipantIdentity \<times> RelaySignalv2ConnectRequest \<times> nat))
        \<times> state" where
  "validateInternal s r connectRequest st =
     (let params = \<lparr>metadata = Metadata connectRequest,
                     attributes = ParticipantAttributes connectRequest\<rparr>;
          st1 = called (Call_ValidateConnectRequest params) st
      in case ValidateConnectRequest s r (limits s) params of
           Inl (code, err) \<Rightarrow> (Inl (code, err), st1)
         | Inr (res, code) \<Rightarrow>
             (let st2 = called (Call_json_Marshal (grants res)) st1
              in case json_Marshal s (grants res) of
                   Inl err \<Rightarrow> (Inl (StatusInternalServerError, err), st2)
                 | Inr grantsJson \<Rightarrow>
                     (let st3 = called (Call_AugmentClientInfo (ClientInfo connectRequest)) st2;
                          connectRequest' = connectRequest
                            \<lparr>ClientInfo := AugmentClientInfo s (ClientInfo connectRequest) r\<rparr>
                      in (Inr (roomName res,
                               Identity (grants res),
                               \<lparr>GrantsJson = grantsJson,
                                CreateRoom = createRoomRequest res,
                                ConnectRequest = connectRequest'\<rparr>,
                               code),
                          st3))))"

section \<open>handlePost\<close>

text \<open>
  The text \<^verbatim>\<open>%T\<close> prints for the client message of the default case: the name of
  its Go type, or \<^verbatim>\<open><nil>\<close>.
\<close>

fun typeName :: "Signalv2ClientMessage \<Rightarrow> string" where
  "typeName (ClientMessage_ConnectRequest c) = ''*livekit.Signalv2ClientMessage_ConnectRequest''"
| "typeName (ClientMessage_Other n) = n"
| "typeName ClientMessage_None = ''<nil>''"

text \<open>\<^verbatim>\<open>fmt.Errorf("%w, message: %T", errUnknownMessageType, clientMessage)\<close>\<close>

definition errUnknownMessage :: "Signalv2ClientMessage \<Rightarrow> error" where
  "errUnknownMessage clientMessage =
     Wrapped (Error errUnknownMessageType @ '', message: '' @ typeName clientMessage)
       errUnknownMessageType"

text \<open>
  The wire message of the connect response: an envelope with one server message.
\<close>

definition connectResponseMessage :: "ConnectResponse option \<Rightarrow> Signalv2WireMessage" where
  "connectResponseMessage cr =
     WireMessage_Envelope
       \<lparr>ClientMessages = [], ServerMessages = [ServerMessage_ConnectResponse cr]\<rparr>"

text \<open>
  The arguments of the debug log read \<^verbatim>\<open>resp.ConnectResponse.Room.Sid\<close> and
  \<^verbatim>\<open>resp.ConnectResponse.Participant.Sid\<close>: a nil pointer on the way panics.
\<close>

definition logConnectResponse :: "RelaySignalv2ConnectResponse \<Rightarrow> flow" where
  "logConnectResponse resp =
     (case ConnectResponse resp of
        None \<Rightarrow> Panic
      | Some cr \<Rightarrow> if Room cr = None \<or> Participant cr = None then Panic else Continue)"

text \<open>
  One round of the loop over the client messages: the body of the inner type switch.
  The \<^verbatim>\<open>ConnectRequest\<close> case returns after each failure; the default case reports
  the error and does not return.
\<close>

definition handleClientMessage ::
  "Service \<Rightarrow> Request \<Rightarrow> Signalv2ClientMessage \<Rightarrow> state \<Rightarrow> flow \<times> state" where
  "handleClientMessage s r innerMsg st =
     (case innerMsg of
        ClientMessage_ConnectRequest connectRequest \<Rightarrow>
          (case validateInternal s r connectRequest st of
             (Inl (code, err), st1) \<Rightarrow> (Return, HandleErrorJson st1 code (Some err))
           | (Inr (room, identity, rscr, code), st1) \<Rightarrow>
               (let st2 = called (Call_SelectRoomNode room '''') st1
                in case SelectRoomNode s room '''' of
                     Some err \<Rightarrow>
                       (Return, HandleErrorJson st2 StatusInternalServerError (Some err))
                   | None \<Rightarrow>
                       (let st3 = called (Call_HandleParticipantConnectRequest
                                            room identity rscr) st2
                        in case HandleParticipantConnectRequest s room identity rscr of
                             Inl err \<Rightarrow>
                               (Return, HandleErrorJson st3 StatusInternalServerError (Some err))
                           | Inr resp \<Rightarrow>
                               (let wireMessage = connectResponseMessage (ConnectResponse resp);
                                    st4 = called (Call_Marshal wireMessage) st3
                                in case proto_Marshal s wireMessage of
                                     Inl err \<Rightarrow>
                                       (Return,
                                        HandleErrorJson st4 StatusInternalServerError (Some err))
                                   | Inr marshalled \<Rightarrow>
                                       (logConnectResponse resp,
                                        st4\<lparr>response :=
                                          Write (Header_Add (response st4)
                                                   ''Content-type'' ''application/x-protobuf'')
                                                (Bytes marshalled)\<rparr>)))))
      | _ \<Rightarrow>
          (Continue, HandleErrorJson st StatusBadRequest (Some (errUnknownMessage innerMsg))))"

text \<open>\<^verbatim>\<open>for _, innerMsg := range msg.Envelope.GetClientMessages()\<close>\<close>

fun forClientMessages ::
  "Service \<Rightarrow> Request \<Rightarrow> Signalv2ClientMessage list \<Rightarrow> state \<Rightarrow> flow \<times> state" where
  "forClientMessages s r [] st = (Continue, st)"
| "forClientMessages s r (innerMsg # rest) st =
     (case handleClientMessage s r innerMsg st of
        (Continue, st') \<Rightarrow> forClientMessages s r rest st'
      | (Return, st') \<Rightarrow> (Return, st')
      | (Panic, st') \<Rightarrow> (Panic, st'))"

definition handlePost :: "Service \<Rightarrow> state \<Rightarrow> Request \<Rightarrow> flow \<times> state" where
  "handlePost s st r =
     (if ContentType r \<noteq> ''application/x-protobuf'' then
        (Return,
         HandleErrorJson st StatusBadRequest (Some (errUnsupportedContentType (ContentType r))))
      else
        (let st1 = called Call_ReadAll st
         in case Body r of
             Inl err \<Rightarrow> (Return, HandleErrorJson st1 StatusBadRequest (Some (errReadBody err)))
           | Inr data \<Rightarrow>
               (let st2 = called (Call_Unmarshal data) st1
                in case proto_Unmarshal s data of
                     Inl err \<Rightarrow>
                       (Return, HandleErrorJson st2 StatusBadRequest (Some (errUnmarshal err)))
                   | Inr wireMessage \<Rightarrow>
                       (case wireMessage of
                          WireMessage_Envelope envelope \<Rightarrow>
                            (case forClientMessages s r (ClientMessages envelope) st2 of
                               (Continue, st3) \<Rightarrow>
                                 (Return, st3\<lparr>response := WriteHeader (response st3) StatusOK\<rparr>)
                             | (Return, st3) \<Rightarrow> (Return, st3)
                             | (Panic, st3) \<Rightarrow> (Panic, st3))
                        | WireMessage_Fragment fragment \<Rightarrow>
                            (Return, HandleErrorJson st2 StatusBadRequest (Some errFragmentsInHTTP))
                        | WireMessage_None \<Rightarrow>
                            (Return, st2\<lparr>response := WriteHeader (response st2) StatusOK\<rparr>)))))"

section \<open>handleParticipantPatch\<close>

text \<open>
  The second half of \<^verbatim>\<open>handleParticipantPatch\<close>, from the RPC call on: the relay
  of the decoded wire message to the node of the participant, the translation of an RPC
  failure, and the response.
\<close>

definition relayParticipant ::
  "Service \<Rightarrow> state \<Rightarrow> RoomName \<Rightarrow> ParticipantIdentity \<Rightarrow> ParticipantID
    \<Rightarrow> Signalv2WireMessage \<Rightarrow> flow \<times> state" where
  "relayParticipant s st room identity pID wireMessage =
     (let st1 = called (Call_ParticipantTopic room identity) st;
          topic = ParticipantTopic s room identity;
          req = \<lparr>Room_name = room,
                 ParticipantIdentity = identity,
                 ParticipantId = pID,
                 WireMessage = wireMessage\<rparr>;
          st2 = called (Call_RelaySignalv2Participant topic req) st1
      in case RelaySignalv2Participant s topic req of
           Inl err \<Rightarrow>
             (case errors_As_psrpc err of
                Some (code, text) \<Rightarrow>
                  (case code of
                     NotFound \<Rightarrow>
                       (Return, HandleErrorJson st2 StatusNotFound (Some (New text)))
                   | InvalidArgument \<Rightarrow>
                       (Return, HandleErrorJson st2 StatusBadRequest (Some (New text)))
                   | OtherCode c \<Rightarrow>
                       (Return, HandleErrorJson st2 StatusInternalServerError (Some (New text))))
              | None \<Rightarrow> (Return, HandleErrorJson st2 StatusInternalServerError None))
         | Inr res \<Rightarrow>
             (let st3 = called (Call_Marshal (ResponseWireMessage res)) st2
              in case proto_Marshal s (ResponseWireMessage res) of
                   Inl err \<Rightarrow>
                     (Return, HandleErrorJson st3 StatusInternalServerError (Some err))
                 | Inr marshalled \<Rightarrow>
                     (Return,
                      st3\<lparr>response :=
                        WriteHeader
                          (Write (Header_Add (response st3)
                                    ''Content-type'' ''application/x-protobuf'')
                                 (Bytes marshalled))
                          StatusOK\<rparr>)))"

text \<open>
  The first half: the content-type check, the authorization checks in the order of the
  source, and the decoding of the body.
\<close>

definition handleParticipantPatch :: "Service \<Rightarrow> state \<Rightarrow> Request \<Rightarrow> flow \<times> state" where
  "handleParticipantPatch s st r =
     (if ContentType r \<noteq> ''application/x-protobuf'' then
        (Return,
         HandleErrorJson st StatusBadRequest (Some (errUnsupportedContentType (ContentType r))))
      else
        (let st1 = called Call_GetGrants st
         in case GetGrants r of
              None \<Rightarrow>
                (Return, HandleErrorJson st1 StatusUnauthorized (Some (ErrPermissionDenied s)))
            | Some claims \<Rightarrow>
                (if Video claims = None then
                   (Return, HandleErrorJson st1 StatusUnauthorized (Some (ErrPermissionDenied s)))
                 else
                   (let st2 = called Call_EnsureJoinPermission st1
                    in case EnsureJoinPermission r of
                         Inl err \<Rightarrow> (Return, HandleErrorJson st2 StatusUnauthorized (Some err))
                       | Inr room \<Rightarrow>
                           (if room = '''' then
                              (Return,
                               HandleErrorJson st2 StatusUnauthorized (Some (ErrNoRoomName s)))
                            else if Identity claims = '''' then
                              (Return,
                               HandleErrorJson st2 StatusUnauthorized (Some (ErrIdentityEmpty s)))
                            else if PathValue_participant_id r = '''' then
                              (Return,
                               HandleErrorJson st2 StatusBadRequest
                                 (Some (ErrParticipantSidEmpty s)))
                            else
                              (let st3 = called Call_ReadAll st2
                               in case Body r of
                                    Inl err \<Rightarrow>
                                      (Return,
                                       HandleErrorJson st3 StatusBadRequest
                                         (Some (errReadBody err)))
                                  | Inr data \<Rightarrow>
                                      (let st4 = called (Call_Unmarshal data) st3
                                       in case proto_Unmarshal s data of
                                            Inl err \<Rightarrow>
                                              (Return,
                                               HandleErrorJson st4 StatusBadRequest
                                                 (Some (errUnmarshal err)))
                                          | Inr wireMessage \<Rightarrow>
                                              relayParticipant s st4 room (Identity claims)
                                                (PathValue_participant_id r) wireMessage)))))))"

section \<open>Test doubles\<close>

text \<open>
  A request and a service with fixed collaborators, for the concrete instances of the
  theorems below. The decoder of \<open>testService m\<close> returns \<open>m\<close> for every body; its
  router refuses the connect request whose metadata is \<open>unroutable\<close>; its participant
  client answers with the wire message it was sent.
\<close>

definition testGrants :: ClaimGrants where
  "testGrants = \<lparr>Identity = ''p1'', Video = Some (MkVideoGrant ''alpha'')\<rparr>"

definition testRequest :: Request where
  "testRequest =
     \<lparr>ContentType = ''application/x-protobuf'',
      Body = Inr ''payload'',
      PathValue_participant_id = ''PA_p1'',
      GetGrants = Some testGrants,
      EnsureJoinPermission = Inr ''alpha''\<rparr>"

definition testConnectRequest :: "string \<Rightarrow> ConnectRequest" where
  "testConnectRequest md =
     \<lparr>Metadata = md, ParticipantAttributes = Map.empty, ClientInfo = None\<rparr>"

definition testConnectResponse :: ConnectResponse where
  "testConnectResponse =
     \<lparr>Room = Some (MkRoom ''RM_alpha''), Participant = Some (MkParticipantInfo ''PA_p1'')\<rparr>"

definition testValidated :: ValidateConnectRequestResult where
  "testValidated = \<lparr>roomName = ''alpha'', grants = testGrants, createRoomRequest = None\<rparr>"

fun testMarshal :: "Signalv2WireMessage \<Rightarrow> error + bytes" where
  "testMarshal (WireMessage_Envelope e) = Inr ''<envelope>''"
| "testMarshal (WireMessage_Fragment f) = Inr ''<fragment>''"
| "testMarshal WireMessage_None = Inr []"

definition testService :: "Signalv2WireMessage \<Rightarrow> Service" where
  "testService m =
     \<lparr>limits = MkLimitConfig [],
      SelectRoomNode = (\<lambda>room hint. None),
      HandleParticipantConnectRequest =
        (\<lambda>room identity rscr.
           if Metadata (ConnectRequest rscr) = ''unroutable''
           then Inl (New ''no route to room'')
           else Inr \<lparr>ConnectResponse = Some testConnectResponse\<rparr>),
      ParticipantTopic = (\<lambda>room identity. room @ ''|'' @ identity),
      RelaySignalv2Participant = (\<lambda>topic req. Inr \<lparr>ResponseWireMessage = WireMessage req\<rparr>),
      ValidateConnectRequest = (\<lambda>r l params. Inr (testValidated, 200)),
      AugmentClientInfo = (\<lambda>ci r. ci),
      ErrPermissionDenied = New ''PermissionDenied'',
      ErrNoRoomName = New ''NoRoomName'',
      ErrIdentityEmpty = New ''IdentityEmpty'',
      ErrParticipantSidEmpty = New ''ParticipantSidEmpty'',
      json_Marshal = (\<lambda>g. Inr (Identity g)),
      proto_Unmarshal = (\<lambda>b. Inr m),
      proto_Marshal = testMarshal\<rparr>"

definition testEnvelope :: "Signalv2ClientMessage list \<Rightarrow> Signalv2WireMessage" where
  "testEnvelope ms = WireMessage_Envelope \<lparr>ClientMessages = ms, ServerMessages = []\<rparr>"

section \<open>Properties of the handlers\<close>

lemmas status_defs =
  StatusOK_def StatusBadRequest_def StatusUnauthorized_def StatusNotFound_def
  StatusInternalServerError_def

lemmas writer_defs =
  HandleErrorJson_def called_def writeErrorJson_def Write_def WriteHeader_def Header_Add_def
  newState_def newResponseWriter_def Let_def

lemmas test_defs =
  testService_def testRequest_def testGrants_def testConnectRequest_def
  testConnectResponse_def testValidated_def testEnvelope_def

subsection \<open>The status, once written, stays\<close>

lemma WriteHeader_written: "status w = Some c \<Longrightarrow> WriteHeader w c' = w"
  by (simp add: WriteHeader_def)

lemma Write_status: "status w = Some c \<Longrightarrow> status (Write w b) = Some c"
  by (simp add: Write_def WriteHeader_def Let_def)

lemma HandleErrorJson_status:
  "status (response st) = Some c \<Longrightarrow> status (response (HandleErrorJson st code err)) = Some c"
  by (simp add: HandleErrorJson_def called_def writeErrorJson_def Write_def WriteHeader_def
      Let_def)

lemma validateInternal_response:
  "response (snd (validateInternal s r c st)) = response st"
  by (simp add: validateInternal_def called_def Let_def split: sum.splits prod.splits)

lemma handleClientMessage_status:
  assumes "status (response st) = Some c"
  shows "status (response (snd (handleClientMessage s r m st))) = Some c"
proof (cases m)
  case (ClientMessage_ConnectRequest cr)
  obtain v st1 where v: "validateInternal s r cr st = (v, st1)"
    by (cases "validateInternal s r cr st")
  with validateInternal_response [of s r cr st] assms
  have st1: "status (response st1) = Some c"
    by simp
  show ?thesis
    using st1 v ClientMessage_ConnectRequest
    by (auto simp add: handleClientMessage_def HandleErrorJson_status Write_status called_def
        Header_Add_def Let_def split: sum.splits option.splits prod.splits)
next
  case (ClientMessage_Other n)
  with assms show ?thesis
    by (simp add: handleClientMessage_def HandleErrorJson_status)
next
  case ClientMessage_None
  with assms show ?thesis
    by (simp add: handleClientMessage_def HandleErrorJson_status)
qed

lemma forClientMessages_status:
  "status (response st) = Some c
    \<Longrightarrow> status (response (snd (forClientMessages s r ms st))) = Some c"
proof (induction ms arbitrary: st)
  case Nil
  then show ?case by simp
next
  case (Cons m ms)
  obtain f st' where step: "handleClientMessage s r m st = (f, st')"
    by (cases "handleClientMessage s r m st")
  with handleClientMessage_status [OF Cons.prems, of s r m]
  have "status (response st') = Some c"
    by simp
  with Cons.IH [of st'] step show ?case
    by (cases f) simp_all
qed

subsection \<open>The connect endpoint\<close>

text \<open>
  Claim C4. A request to the connect endpoint whose body decodes to a wire message with
  the top-level variant \<open>Fragment\<close> gets HTTP 400 with the error
  \<open>errFragmentsInHTTP\<close>, whatever the fragment holds.
\<close>

theorem fragment_rejected:
  assumes "ContentType r = ''application/x-protobuf''"
    and "Body r = Inr data"
    and "proto_Unmarshal s data = Inr (WireMessage_Fragment fragment)"
  shows "\<exists>st. handlePost s newState r = (Return, st)
    \<and> status (response st) = Some 400
    \<and> body (response st) = [JsonError 400 ''should not get fragments via HTTP request'']
    \<and> calls st = [Call_ReadAll, Call_Unmarshal data,
                   Call_HandleErrorJson 400 (Some errFragmentsInHTTP)]"
  using assms by (simp add: handlePost_def writer_defs status_defs errFragmentsInHTTP_def)

theorem fragment_rejected_witness:
  "ContentType testRequest = ''application/x-protobuf''
   \<and> Body testRequest = Inr ''payload''
   \<and> proto_Unmarshal (testService (WireMessage_Fragment (MkFragment ''abc''))) ''payload''
       = Inr (WireMessage_Fragment (MkFragment ''abc''))
   \<and> (\<exists>st. handlePost (testService (WireMessage_Fragment (MkFragment ''abc''))) newState
              testRequest = (Return, st)
         \<and> status (response st) = Some 400
         \<and> body (response st) = [JsonError 400 ''should not get fragments via HTTP request''])"
proof -
  have ct: "ContentType testRequest = ''application/x-protobuf''"
    by (simp add: testRequest_def)
  have bd: "Body testRequest = Inr ''payload''"
    by (simp add: testRequest_def)
  have un: "proto_Unmarshal (testService (WireMessage_Fragment (MkFragment ''abc''))) ''payload''
      = Inr (WireMessage_Fragment (MkFragment ''abc''))"
    by (simp add: testService_def)
  from fragment_rejected [OF ct bd un] ct bd un show ?thesis by blast
qed

text \<open>
  Claim C5. On either endpoint, a request whose \<open>Content-type\<close> is not exactly
  \<open>application/x-protobuf\<close> gets HTTP 400, and nothing but the error writer is called:
  the body is neither read nor decoded.
\<close>

theorem content_type_required:
  assumes "ContentType r \<noteq> ''application/x-protobuf''"
  shows "(\<exists>st. handlePost s newState r = (Return, st)
        \<and> status (response st) = Some 400
        \<and> body (response st)
            = [JsonError 400 (''unsupported content-type: '' @ ContentType r)]
        \<and> calls st = [Call_HandleErrorJson 400
                         (Some (New (''unsupported content-type: '' @ ContentType r)))])
    \<and> (\<exists>st. handleParticipantPatch s newState r = (Return, st)
        \<and> status (response st) = Some 400
        \<and> body (response st)
            = [JsonError 400 (''unsupported content-type: '' @ ContentType r)]
        \<and> calls st = [Call_HandleErrorJson 400
                         (Some (New (''unsupported content-type: '' @ ContentType r)))])"
  using assms
  by (simp add: handlePost_def handleParticipantPatch_def writer_defs status_defs
      errUnsupportedContentType_def)

theorem content_type_required_witness:
  "ContentType (testRequest\<lparr>ContentType := ''application/json''\<rparr>) \<noteq> ''application/x-protobuf''
   \<and> (\<exists>st. handlePost (testService WireMessage_None) newState
              (testRequest\<lparr>ContentType := ''application/json''\<rparr>) = (Return, st)
         \<and> status (response st) = Some 400
         \<and> calls st = [Call_HandleErrorJson 400
                          (Some (New ''unsupported content-type: application/json''))])
   \<and> (\<exists>st. handleParticipantPatch (testService WireMessage_None) newState
              (testRequest\<lparr>ContentType := ''application/json''\<rparr>) = (Return, st)
         \<and> status (response st) = Some 400
         \<and> calls st = [Call_HandleErrorJson 400
                          (Some (New ''unsupported content-type: application/json''))])"
proof -
  have ct: "ContentType (testRequest\<lparr>ContentType := ''application/json''\<rparr>)
      \<noteq> ''application/x-protobuf''"
    by simp
  from content_type_required [OF ct, of "testService WireMessage_None"] ct show ?thesis
    by auto
qed

text \<open>
  Claim C8. A connect-endpoint envelope whose only client message is not a
  \<open>ConnectRequest\<close> gets HTTP 400 with the unknown-message-type error, whose text ends
  with the name of the Go type of the message (\<open>typeName (ClientMessage_Other n) = n\<close>;
  \<open><nil>\<close> when no variant is set). The 200 that the handler writes after the loop comes
  after the status is fixed and changes nothing.
\<close>

theorem unknown_message_rejected:
  assumes "ContentType r = ''application/x-protobuf''"
    and "Body r = Inr data"
    and "proto_Unmarshal s data = Inr (WireMessage_Envelope e)"
    and "ClientMessages e = [innerMsg]"
    and "innerMsg = ClientMessage_Other n \<or> innerMsg = ClientMessage_None"
  shows "\<exists>st. handlePost s newState r = (Return, st)
    \<and> status (response st) = Some 400
    \<and> body (response st)
        = [JsonError 400 (''unknown message type, message: '' @ typeName innerMsg)]"
  using assms
  by (auto simp add: handlePost_def handleClientMessage_def writer_defs status_defs
      errUnknownMessage_def errUnknownMessageType_def)

theorem unknown_message_rejected_witness:
  "(\<exists>st. handlePost
            (testService (testEnvelope [ClientMessage_Other ''*livekit.Signalv2ClientMessage_X'']))
            newState testRequest = (Return, st)
      \<and> status (response st) = Some 400
      \<and> body (response st)
          = [JsonError 400 ''unknown message type, message: *livekit.Signalv2ClientMessage_X''])
   \<and> (\<exists>st. handlePost (testService (testEnvelope [ClientMessage_None])) newState testRequest
            = (Return, st)
      \<and> status (response st) = Some 400
      \<and> body (response st) = [JsonError 400 ''unknown message type, message: <nil>''])"
proof -
  have ct: "ContentType testRequest = ''application/x-protobuf''"
    and bd: "Body testRequest = Inr ''payload''"
    by (simp_all add: testRequest_def)
  have un: "proto_Unmarshal (testService (testEnvelope ms)) ''payload''
      = Inr (WireMessage_Envelope \<lparr>ClientMessages = ms, ServerMessages = []\<rparr>)" for ms
    by (simp add: testService_def testEnvelope_def)
  have a: "\<exists>st. handlePost
            (testService (testEnvelope [ClientMessage_Other ''*livekit.Signalv2ClientMessage_X'']))
            newState testRequest = (Return, st)
      \<and> status (response st) = Some 400
      \<and> body (response st)
          = [JsonError 400 ''unknown message type, message: *livekit.Signalv2ClientMessage_X'']"
    using unknown_message_rejected [OF ct bd un,
        where innerMsg = "ClientMessage_Other ''*livekit.Signalv2ClientMessage_X''"
          and n = "''*livekit.Signalv2ClientMessage_X''"]
    by simp
  have b: "\<exists>st. handlePost (testService (testEnvelope [ClientMessage_None])) newState testRequest
            = (Return, st)
      \<and> status (response st) = Some 400
      \<and> body (response st) = [JsonError 400 ''unknown message type, message: <nil>'']"
    using unknown_message_rejected [OF ct bd un, where innerMsg = ClientMessage_None]
    by simp
  from a b show ?thesis by blast
qed

text \<open>
  Claim C10. With the right content type, a body that decodes to a wire message with no
  variant set, or to an envelope with no client message, gets HTTP 200 with an empty
  body, and the error writer is not called.
\<close>

theorem no_message_ok:
  assumes "ContentType r = ''application/x-protobuf''"
    and "Body r = Inr data"
    and "proto_Unmarshal s data = Inr m"
    and "m = WireMessage_None \<or> (\<exists>e. m = WireMessage_Envelope e \<and> ClientMessages e = [])"
  shows "\<exists>st. handlePost s newState r = (Return, st)
    \<and> status (response st) = Some 200
    \<and> body (response st) = []
    \<and> calls st = [Call_ReadAll, Call_Unmarshal data]"
  using assms by (auto simp add: handlePost_def writer_defs status_defs)

theorem no_message_ok_witness:
  "(\<exists>st. handlePost (testService WireMessage_None) newState testRequest = (Return, st)
      \<and> status (response st) = Some 200 \<and> body (response st) = [])
   \<and> (\<exists>st. handlePost (testService (testEnvelope [])) newState testRequest = (Return, st)
      \<and> status (response st) = Some 200 \<and> body (response st) = [])"
proof -
  have ct: "ContentType testRequest = ''application/x-protobuf''"
    and bd: "Body testRequest = Inr ''payload''"
    by (simp_all add: testRequest_def)
  have un: "proto_Unmarshal (testService m) ''payload'' = Inr m" for m
    by (simp add: testService_def)
  have a: "\<exists>st. handlePost (testService WireMessage_None) newState testRequest = (Return, st)
      \<and> status (response st) = Some 200 \<and> body (response st) = []"
    using no_message_ok [OF ct bd un, of WireMessage_None] by blast
  have b: "\<exists>st. handlePost (testService (testEnvelope [])) newState testRequest = (Return, st)
      \<and> status (response st) = Some 200 \<and> body (response st) = []"
    using no_message_ok [OF ct bd un, of "testEnvelope []"]
    by (auto simp add: testEnvelope_def)
  from a b show ?thesis by blast
qed

subsection \<open>The participant endpoint\<close>

text \<open>
  Claim C2. On a PATCH request (with the required content type, so that the
  authorization checks are reached) the checks run in the order of the source: absent
  grants or an absent video grant give 401 with \<open>ErrPermissionDenied\<close> before
  \<open>EnsureJoinPermission\<close> is called; then a join-permission failure gives 401 with
  its error; then an empty room name gives 401 with \<open>ErrNoRoomName\<close>; then an empty
  identity gives 401 with \<open>ErrIdentityEmpty\<close>, whatever the participant id is; then
  an empty participant id gives 400 with \<open>ErrParticipantSidEmpty\<close>. In each case the body
  is not read.
\<close>

theorem authorization_order:
  assumes "ContentType r = ''application/x-protobuf''"
  shows "(GetGrants r = None \<or> (\<exists>claims. GetGrants r = Some claims \<and> Video claims = None)
      \<longrightarrow> (\<exists>st. handleParticipantPatch s newState r = (Return, st)
            \<and> status (response st) = Some 401
            \<and> body (response st) = [JsonError 401 (Error (ErrPermissionDenied s))]
            \<and> calls st = [Call_GetGrants,
                           Call_HandleErrorJson 401 (Some (ErrPermissionDenied s))]))
    \<and> (\<forall>claims v err.
          GetGrants r = Some claims \<and> Video claims = Some v
          \<and> EnsureJoinPermission r = Inl err
      \<longrightarrow> (\<exists>st. handleParticipantPatch s newState r = (Return, st)
            \<and> status (response st) = Some 401
            \<and> body (response st) = [JsonError 401 (Error err)]
            \<and> calls st = [Call_GetGrants, Call_EnsureJoinPermission,
                           Call_HandleErrorJson 401 (Some err)]))
    \<and> (\<forall>claims v.
          GetGrants r = Some claims \<and> Video claims = Some v
          \<and> EnsureJoinPermission r = Inr ''''
      \<longrightarrow> (\<exists>st. handleParticipantPatch s newState r = (Return, st)
            \<and> status (response st) = Some 401
            \<and> body (response st) = [JsonError 401 (Error (ErrNoRoomName s))]
            \<and> calls st = [Call_GetGrants, Call_EnsureJoinPermission,
                           Call_HandleErrorJson 401 (Some (ErrNoRoomName s))]))
    \<and> (\<forall>claims v room.
          GetGrants r = Some claims \<and> Video claims = Some v
          \<and> EnsureJoinPermission r = Inr room \<and> room \<noteq> ''''
          \<and> Identity claims = ''''
      \<longrightarrow> (\<exists>st. handleParticipantPatch s newState r = (Return, st)
            \<and> status (response st) = Some 401
            \<and> body (response st) = [JsonError 401 (Error (ErrIdentityEmpty s))]
            \<and> calls st = [Call_GetGrants, Call_EnsureJoinPermission,
                           Call_HandleErrorJson 401 (Some (ErrIdentityEmpty s))]))
    \<and> (\<forall>claims v room.
          GetGrants r = Some claims \<and> Video claims = Some v
          \<and> EnsureJoinPermission r = Inr room \<and> room \<noteq> ''''
          \<and> Identity claims \<noteq> ''''
          \<and> PathValue_participant_id r = ''''
      \<longrightarrow> (\<exists>st. handleParticipantPatch s newState r = (Return, st)
            \<and> status (response st) = Some 400
            \<and> body (response st) = [JsonError 400 (Error (ErrParticipantSidEmpty s))]
            \<and> calls st = [Call_GetGrants, Call_EnsureJoinPermission,
                           Call_HandleErrorJson 400 (Some (ErrParticipantSidEmpty s))]))"
  using assms
  by (auto simp add: handleParticipantPatch_def writer_defs status_defs)

text \<open>
  Six requests, each failing one check with the later ones failing too: no grants; no
  video grant; no join permission; an empty room name; an empty identity (and an empty
  participant id); an empty participant id.
\<close>

theorem authorization_order_witness:
  "(\<exists>st. handleParticipantPatch (testService WireMessage_None) newState
            (testRequest\<lparr>GetGrants := None, EnsureJoinPermission := Inr '''',
                         PathValue_participant_id := ''''\<rparr>) = (Return, st)
      \<and> status (response st) = Some 401
      \<and> body (response st) = [JsonError 401 ''PermissionDenied''])
   \<and> (\<exists>st. handleParticipantPatch (testService WireMessage_None) newState
            (testRequest\<lparr>GetGrants := Some \<lparr>Identity = '''', Video = None\<rparr>,
                         EnsureJoinPermission := Inr '''',
                         PathValue_participant_id := ''''\<rparr>) = (Return, st)
      \<and> status (response st) = Some 401
      \<and> body (response st) = [JsonError 401 ''PermissionDenied''])
   \<and> (\<exists>st. handleParticipantPatch (testService WireMessage_None) newState
            (testRequest\<lparr>GetGrants := Some \<lparr>Identity = '''',
                                             Video = Some (MkVideoGrant ''alpha'')\<rparr>,
                         EnsureJoinPermission := Inl (New ''join not permitted''),
                         PathValue_participant_id := ''''\<rparr>) = (Return, st)
      \<and> status (response st) = Some 401
      \<and> body (response st) = [JsonError 401 ''join not permitted''])
   \<and> (\<exists>st. handleParticipantPatch (testService WireMessage_None) newState
            (testRequest\<lparr>GetGrants := Some \<lparr>Identity = '''',
                                             Video = Some (MkVideoGrant ''alpha'')\<rparr>,
                         EnsureJoinPermission := Inr '''',
                         PathValue_participant_id := ''''\<rparr>) = (Return, st)
      \<and> status (response st) = Some 401
      \<and> body (response st) = [JsonError 401 ''NoRoomName''])
   \<and> (\<exists>st. handleParticipantPatch (testService WireMessage_None) newState
            (testRequest\<lparr>GetGrants := Some \<lparr>Identity = '''',
                                             Video = Some (MkVideoGrant ''alpha'')\<rparr>,
                         PathValue_participant_id := ''''\<rparr>) = (Return, st)
      \<and> status (response st) = Some 401
      \<and> body (response st) = [JsonError 401 ''IdentityEmpty''])
   \<and> (\<exists>st. handleParticipantPatch (testService WireMessage_None) newState
            (testRequest\<lparr>PathValue_participant_id := ''''\<rparr>) = (Return, st)
      \<and> status (response st) = Some 400
      \<and> body (response st) = [JsonError 400 ''ParticipantSidEmpty''])"
proof -
  note order = authorization_order [where s = "testService WireMessage_None"]
  have a: "\<exists>st. handleParticipantPatch (testService WireMessage_None) newState
            (testRequest\<lparr>GetGrants := None, EnsureJoinPermission := Inr '''',
                         PathValue_participant_id := ''''\<rparr>) = (Return, st)
      \<and> status (response st) = Some 401
      \<and> body (response st) = [JsonError 401 ''PermissionDenied'']"
    using order [where r = "testRequest\<lparr>GetGrants := None, EnsureJoinPermission := Inr '''',
        PathValue_participant_id := ''''\<rparr>"]
    by (auto simp add: testService_def testRequest_def testGrants_def)
  have b: "\<exists>st. handleParticipantPatch (testService WireMessage_None) newState
            (testRequest\<lparr>GetGrants := Some \<lparr>Identity = '''', Video = None\<rparr>,
                         EnsureJoinPermission := Inr '''',
                         PathValue_participant_id := ''''\<rparr>) = (Return, st)
      \<and> status (response st) = Some 401
      \<and> body (response st) = [JsonError 401 ''PermissionDenied'']"
    using order [where r = "testRequest\<lparr>GetGrants := Some \<lparr>Identity = '''', Video = None\<rparr>,
        EnsureJoinPermission := Inr '''', PathValue_participant_id := ''''\<rparr>"]
    by (auto simp add: testService_def testRequest_def testGrants_def)
  have c: "\<exists>st. handleParticipantPatch (testService WireMessage_None) newState
            (testRequest\<lparr>GetGrants := Some \<lparr>Identity = '''',
                                             Video = Some (MkVideoGrant ''alpha'')\<rparr>,
                         EnsureJoinPermission := Inl (New ''join not permitted''),
                         PathValue_participant_id := ''''\<rparr>) = (Return, st)
      \<and> status (response st) = Some 401
      \<and> body (response st) = [JsonError 401 ''join not permitted'']"
    using order [where r = "testRequest\<lparr>GetGrants := Some \<lparr>Identity = '''',
                                      Video = Some (MkVideoGrant ''alpha'')\<rparr>,
        EnsureJoinPermission := Inl (New ''join not permitted''),
        PathValue_participant_id := ''''\<rparr>"]
    by (auto simp add: testService_def testRequest_def testGrants_def)
  have d: "\<exists>st. handleParticipantPatch (testService WireMessage_None) newState
            (testRequest\<lparr>GetGrants := Some \<lparr>Identity = '''',
                                             Video = Some (MkVideoGrant ''alpha'')\<rparr>,
                         EnsureJoinPermission := Inr '''',
                         PathValue_participant_id := ''''\<rparr>) = (Return, st)
      \<and> status (response st) = Some 401
      \<and> body (response st) = [JsonError 401 ''NoRoomName'']"
    using order [where r = "testRequest\<lparr>GetGrants := Some \<lparr>Identity = '''',
                                      Video = Some (MkVideoGrant ''alpha'')\<rparr>,
        EnsureJoinPermission := Inr '''', PathValue_participant_id := ''''\<rparr>"]
    by (auto simp add: testService_def testRequest_def testGrants_def)
  have e: "\<exists>st. handleParticipantPatch (testService WireMessage_None) newState
            (testRequest\<lparr>GetGrants := Some \<lparr>Identity = '''',
                                             Video = Some (MkVideoGrant ''alpha'')\<rparr>,
                         PathValue_participant_id := ''''\<rparr>) = (Return, st)
      \<and> status (response st) = Some 401
      \<and> body (response st) = [JsonError 401 ''IdentityEmpty'']"
    using order [where r = "testRequest\<lparr>GetGrants := Some \<lparr>Identity = '''',
                                      Video = Some (MkVideoGrant ''alpha'')\<rparr>,
        PathValue_participant_id := ''''\<rparr>"]
    by (auto simp add: testService_def testRequest_def testGrants_def)
  have f: "\<exists>st. handleParticipantPatch (testService WireMessage_None) newState
            (testRequest\<lparr>PathValue_participant_id := ''''\<rparr>) = (Return, st)
      \<and> status (response st) = Some 400
      \<and> body (response st) = [JsonError 400 ''ParticipantSidEmpty'']"
    using order [where r = "testRequest\<lparr>PathValue_participant_id := ''''\<rparr>"]
    by (auto simp add: testService_def testRequest_def testGrants_def)
  from a b c d e f show ?thesis by blast
qed

text \<open>
  Claim C3. When the request passes every check, its body decodes and the relay RPC
  fails: a failure with a \<open>psrpc.Error\<close> of code \<open>NotFound\<close> in its chain gives
  HTTP 404, of code \<open>InvalidArgument\<close> HTTP 400, of any other code HTTP 500, each with
  the text of that \<open>psrpc.Error\<close> as the message; a failure with no \<open>psrpc.Error\<close>
  in its chain gives HTTP 500, and the handler passes the nil error to the error writer,
  which puts \<open>internalErrorMessage\<close> in its place.
\<close>

theorem rpc_error_mapping:
  assumes "ContentType r = ''application/x-protobuf''"
    and "GetGrants r = Some claims" and "Video claims = Some v"
    and "EnsureJoinPermission r = Inr room" and "room \<noteq> ''''"
    and "Identity claims \<noteq> ''''"
    and "PathValue_participant_id r \<noteq> ''''"
    and "Body r = Inr data"
    and "proto_Unmarshal s data = Inr m"
    and "RelaySignalv2Participant s (ParticipantTopic s room (Identity claims))
           \<lparr>Room_name = room, ParticipantIdentity = Identity claims,
            ParticipantId = PathValue_participant_id r, WireMessage = m\<rparr> = Inl err"
  shows "\<exists>st. handleParticipantPatch s newState r = (Return, st)
    \<and> (\<forall>text. errors_As_psrpc err = Some (NotFound, text)
        \<longrightarrow> status (response st) = Some 404 \<and> body (response st) = [JsonError 404 text]
          \<and> last (calls st) = Call_HandleErrorJson 404 (Some (New text)))
    \<and> (\<forall>text. errors_As_psrpc err = Some (InvalidArgument, text)
        \<longrightarrow> status (response st) = Some 400 \<and> body (response st) = [JsonError 400 text]
          \<and> last (calls st) = Call_HandleErrorJson 400 (Some (New text)))
    \<and> (\<forall>c text. errors_As_psrpc err = Some (OtherCode c, text)
        \<longrightarrow> status (response st) = Some 500 \<and> body (response st) = [JsonError 500 text]
          \<and> last (calls st) = Call_HandleErrorJson 500 (Some (New text)))
    \<and> (errors_As_psrpc err = None
        \<longrightarrow> status (response st) = Some 500
          \<and> body (response st) = [JsonError 500 internalErrorMessage]
          \<and> last (calls st) = Call_HandleErrorJson 500 None)"
  using assms
  by (auto simp add: handleParticipantPatch_def relayParticipant_def writer_defs status_defs
      split: option.splits ErrorCode.splits)

text \<open>
  Five participant clients: one failing with each code, one with a \<open>psrpc.Error\<close>
  wrapped in another error, and one with a plain error.
\<close>

theorem rpc_error_mapping_witness:
  "(\<exists>st. handleParticipantPatch
            ((testService WireMessage_None)
               \<lparr>RelaySignalv2Participant :=
                  (\<lambda>topic req. Inl (PsrpcError NotFound ''participant not found''))\<rparr>)
            newState testRequest = (Return, st)
      \<and> status (response st) = Some 404
      \<and> body (response st) = [JsonError 404 ''participant not found''])
   \<and> (\<exists>st. handleParticipantPatch
            ((testService WireMessage_None)
               \<lparr>RelaySignalv2Participant :=
                  (\<lambda>topic req. Inl (PsrpcError InvalidArgument ''bad message''))\<rparr>)
            newState testRequest = (Return, st)
      \<and> status (response st) = Some 400
      \<and> body (response st) = [JsonError 400 ''bad message''])
   \<and> (\<exists>st. handleParticipantPatch
            ((testService WireMessage_None)
               \<lparr>RelaySignalv2Participant :=
                  (\<lambda>topic req. Inl (PsrpcError (OtherCode ''unavailable'') ''node is down''))\<rparr>)
            newState testRequest = (Return, st)
      \<and> status (response st) = Some 500
      \<and> body (response st) = [JsonError 500 ''node is down''])
   \<and> (\<exists>st. handleParticipantPatch
            ((testService WireMessage_None)
               \<lparr>RelaySignalv2Participant :=
                  (\<lambda>topic req. Inl (Wrapped ''relay: participant not found''
                                       (PsrpcError NotFound ''participant not found'')))\<rparr>)
            newState testRequest = (Return, st)
      \<and> status (response st) = Some 404
      \<and> body (response st) = [JsonError 404 ''participant not found''])
   \<and> (\<exists>st. handleParticipantPatch
            ((testService WireMessage_None)
               \<lparr>RelaySignalv2Participant := (\<lambda>topic req. Inl (New ''connection reset''))\<rparr>)
            newState testRequest = (Return, st)
      \<and> status (response st) = Some 500
      \<and> body (response st) = [JsonError 500 ''internal error''])"
proof -
  have ok: "ContentType testRequest = ''application/x-protobuf''"
    "GetGrants testRequest = Some testGrants"
    "Video testGrants = Some (MkVideoGrant ''alpha'')"
    "EnsureJoinPermission testRequest = Inr ''alpha''"
    "''alpha'' \<noteq> ''''"
    "Identity testGrants \<noteq> ''''"
    "PathValue_participant_id testRequest \<noteq> ''''"
    "Body testRequest = Inr ''payload''"
    by (simp_all add: testRequest_def testGrants_def)
  have un: "proto_Unmarshal ((testService WireMessage_None)\<lparr>RelaySignalv2Participant := f\<rparr>)
      ''payload'' = Inr WireMessage_None" for f
    by (simp add: testService_def)
  have rpc: "RelaySignalv2Participant
      ((testService WireMessage_None)\<lparr>RelaySignalv2Participant := (\<lambda>topic req. Inl e)\<rparr>)
      topic req = Inl e" for e topic req
    by simp
  note mapping = rpc_error_mapping [OF ok un rpc]
  have a: "\<exists>st. handleParticipantPatch
            ((testService WireMessage_None)
               \<lparr>RelaySignalv2Participant :=
                  (\<lambda>topic req. Inl (PsrpcError NotFound ''participant not found''))\<rparr>)
            newState testRequest = (Return, st)
      \<and> status (response st) = Some 404
      \<and> body (response st) = [JsonError 404 ''participant not found'']"
    using mapping [of "PsrpcError NotFound ''participant not found''"] by auto
  have b: "\<exists>st. handleParticipantPatch
            ((testService WireMessage_None)
               \<lparr>RelaySignalv2Participant :=
                  (\<lambda>topic req. Inl (PsrpcError InvalidArgument ''bad message''))\<rparr>)
            newState testRequest = (Return, st)
      \<and> status (response st) = Some 400
      \<and> body (response st) = [JsonError 400 ''bad message'']"
    using mapping [of "PsrpcError InvalidArgument ''bad message''"] by auto
  have c: "\<exists>st. handleParticipantPatch
            ((testService WireMessage_None)
               \<lparr>RelaySignalv2Participant :=
                  (\<lambda>topic req. Inl (PsrpcError (OtherCode ''unavailable'') ''node is down''))\<rparr>)
            newState testRequest = (Return, st)
      \<and> status (response st) = Some 500
      \<and> body (response st) = [JsonError 500 ''node is down'']"
    using mapping [of "PsrpcError (OtherCode ''unavailable'') ''node is down''"] by auto
  have d: "\<exists>st. handleParticipantPatch
            ((testService WireMessage_None)
               \<lparr>RelaySignalv2Participant :=
                  (\<lambda>topic req. Inl (Wrapped ''relay: participant not found''
                                       (PsrpcError NotFound ''participant not found'')))\<rparr>)
            newState testRequest = (Return, st)
      \<and> status (response st) = Some 404
      \<and> body (response st) = [JsonError 404 ''participant not found'']"
    using mapping [of "Wrapped ''relay: participant not found''
        (PsrpcError NotFound ''participant not found'')"]
    by auto
  have e: "\<exists>st. handleParticipantPatch
            ((testService WireMessage_None)
               \<lparr>RelaySignalv2Participant := (\<lambda>topic req. Inl (New ''connection reset''))\<rparr>)
            newState testRequest = (Return, st)
      \<and> status (response st) = Some 500
      \<and> body (response st) = [JsonError 500 ''internal error'']"
    using mapping [of "New ''connection reset''"] by (auto simp add: internalErrorMessage_def)
  from a b c d e show ?thesis by blast
qed

text \<open>
  Claim C7. When the request passes the content-type and authorization checks and its
  body decodes to \<open>m\<close>, the handler makes one relay call, to the topic of the
  participant, and the relay request holds \<open>m\<close> itself, whatever its variant (a
  top-level fragment too), with the room, the identity and the participant id. When the
  RPC returns a response with the wire message \<open>x\<close>, whose encoding is \<open>encoded\<close>, the
  response is HTTP 200 with the body \<open>encoded\<close>.
\<close>

theorem participant_relay_success:
  assumes "ContentType r = ''application/x-protobuf''"
    and "GetGrants r = Some claims" and "Video claims = Some v"
    and "EnsureJoinPermission r = Inr room" and "room \<noteq> ''''"
    and "Identity claims \<noteq> ''''"
    and "PathValue_participant_id r \<noteq> ''''"
    and "Body r = Inr data"
    and "proto_Unmarshal s data = Inr m"
  shows "\<exists>st after. handleParticipantPatch s newState r = (Return, st)
    \<and> calls st =
        [Call_GetGrants, Call_EnsureJoinPermission, Call_ReadAll, Call_Unmarshal data,
         Call_ParticipantTopic room (Identity claims),
         Call_RelaySignalv2Participant (ParticipantTopic s room (Identity claims))
           \<lparr>Room_name = room, ParticipantIdentity = Identity claims,
            ParticipantId = PathValue_participant_id r, WireMessage = m\<rparr>] @ after
    \<and> (\<forall>x encoded.
          RelaySignalv2Participant s (ParticipantTopic s room (Identity claims))
            \<lparr>Room_name = room, ParticipantIdentity = Identity claims,
             ParticipantId = PathValue_participant_id r, WireMessage = m\<rparr>
            = Inr \<lparr>ResponseWireMessage = x\<rparr>
          \<and> proto_Marshal s x = Inr encoded
        \<longrightarrow> status (response st) = Some 200
          \<and> body (response st) = [Bytes encoded]
          \<and> after = [Call_Marshal x])"
proof -
  let ?req = "\<lparr>Room_name = room, ParticipantIdentity = Identity claims,
      ParticipantId = PathValue_participant_id r, WireMessage = m\<rparr>"
  let ?topic = "ParticipantTopic s room (Identity claims)"
  have relay: "handleParticipantPatch s newState r =
      relayParticipant s
        \<lparr>response = newResponseWriter,
         calls = [Call_GetGrants, Call_EnsureJoinPermission, Call_ReadAll, Call_Unmarshal data]\<rparr>
        room (Identity claims) (PathValue_participant_id r) m"
    using assms by (simp add: handleParticipantPatch_def called_def newState_def)
  show ?thesis
  proof (cases "RelaySignalv2Participant s ?topic ?req")
    case (Inl err)
    then show ?thesis
      unfolding relay
      by (simp add: relayParticipant_def writer_defs
          split: option.splits ErrorCode.splits prod.splits)
  next
    case (Inr res)
    then show ?thesis
      unfolding relay
      by (cases "proto_Marshal s (ResponseWireMessage res)")
        (auto simp add: relayParticipant_def writer_defs status_defs)
  qed
qed

text \<open>
  The test request with a body that decodes to a fragment: the fragment is relayed, and
  the answer of the participant client (here the fragment again) is the body.
\<close>

theorem participant_relay_success_witness:
  "\<exists>st. handleParticipantPatch (testService (WireMessage_Fragment (MkFragment ''abc'')))
           newState testRequest = (Return, st)
     \<and> status (response st) = Some 200
     \<and> body (response st) = [Bytes ''<fragment>'']
     \<and> calls st =
         [Call_GetGrants, Call_EnsureJoinPermission, Call_ReadAll, Call_Unmarshal ''payload'',
          Call_ParticipantTopic ''alpha'' ''p1'',
          Call_RelaySignalv2Participant ''alpha|p1''
            \<lparr>Room_name = ''alpha'', ParticipantIdentity = ''p1'', ParticipantId = ''PA_p1'',
             WireMessage = WireMessage_Fragment (MkFragment ''abc'')\<rparr>,
          Call_Marshal (WireMessage_Fragment (MkFragment ''abc''))]"
proof -
  have ok: "ContentType testRequest = ''application/x-protobuf''"
    "GetGrants testRequest = Some testGrants"
    "Video testGrants = Some (MkVideoGrant ''alpha'')"
    "EnsureJoinPermission testRequest = Inr ''alpha''"
    "''alpha'' \<noteq> ''''"
    "Identity testGrants \<noteq> ''''"
    "PathValue_participant_id testRequest \<noteq> ''''"
    "Body testRequest = Inr ''payload''"
    by (simp_all add: testRequest_def testGrants_def)
  have un: "proto_Unmarshal (testService (WireMessage_Fragment (MkFragment ''abc''))) ''payload''
      = Inr (WireMessage_Fragment (MkFragment ''abc''))"
    by (simp add: testService_def)
  have rpc: "RelaySignalv2Participant (testService (WireMessage_Fragment (MkFragment ''abc'')))
      (ParticipantTopic (testService (WireMessage_Fragment (MkFragment ''abc'')))
         ''alpha'' (Identity testGrants))
      \<lparr>Room_name = ''alpha'', ParticipantIdentity = Identity testGrants,
       ParticipantId = PathValue_participant_id testRequest,
       WireMessage = WireMessage_Fragment (MkFragment ''abc'')\<rparr>
      = Inr \<lparr>ResponseWireMessage = WireMessage_Fragment (MkFragment ''abc'')\<rparr>"
    by (simp add: testService_def)
  have enc: "proto_Marshal (testService (WireMessage_Fragment (MkFragment ''abc'')))
      (WireMessage_Fragment (MkFragment ''abc'')) = Inr ''<fragment>''"
    by (simp add: testService_def)
  from participant_relay_success [OF ok un] rpc enc show ?thesis
    by (auto simp add: testService_def testGrants_def testRequest_def)
qed

subsection \<open>Envelopes with a connect request\<close>

text \<open>
  The three failures after a successful validation, for the first client message of an
  envelope. When that message is a \<open>ConnectRequest\<close> on which the validator succeeds,
  each of the three later failures gives HTTP 500 with the text of the failure, and the
  handler returns at once: the grants that \<open>json.Marshal\<close> cannot serialize, the room
  allocator that cannot select a node (whatever its error), and the router that cannot
  forward the relay connect request. The rest of the envelope is arbitrary and is not
  processed.
\<close>

theorem connect_failure_points:
  assumes "ContentType r = ''application/x-protobuf''"
    and "Body r = Inr data"
    and "proto_Unmarshal s data = Inr (WireMessage_Envelope e)"
    and "ClientMessages e = ClientMessage_ConnectRequest c # rest"
    and "ValidateConnectRequest s r (limits s)
           \<lparr>metadata = Metadata c, attributes = ParticipantAttributes c\<rparr> = Inr (res, code)"
  shows "(\<forall>err. json_Marshal s (grants res) = Inl err
        \<longrightarrow> (\<exists>st. handlePost s newState r = (Return, st)
            \<and> status (response st) = Some 500
            \<and> body (response st) = [JsonError 500 (Error err)]
            \<and> last (calls st) = Call_HandleErrorJson 500 (Some err)))
    \<and> (\<forall>g err. json_Marshal s (grants res) = Inr g
          \<and> SelectRoomNode s (roomName res) '''' = Some err
        \<longrightarrow> (\<exists>st. handlePost s newState r = (Return, st)
            \<and> status (response st) = Some 500
            \<and> body (response st) = [JsonError 500 (Error err)]
            \<and> last (calls st) = Call_HandleErrorJson 500 (Some err)))
    \<and> (\<forall>g err. json_Marshal s (grants res) = Inr g
          \<and> SelectRoomNode s (roomName res) '''' = None
          \<and> HandleParticipantConnectRequest s (roomName res) (Identity (grants res))
               \<lparr>GrantsJson = g, CreateRoom = createRoomRequest res,
                ConnectRequest = c\<lparr>ClientInfo := AugmentClientInfo s (ClientInfo c) r\<rparr>\<rparr>
              = Inl err
        \<longrightarrow> (\<exists>st. handlePost s newState r = (Return, st)
            \<and> status (response st) = Some 500
            \<and> body (response st) = [JsonError 500 (Error err)]
            \<and> last (calls st) = Call_HandleErrorJson 500 (Some err)))"
  using assms
  by (auto simp add: handlePost_def handleClientMessage_def validateInternal_def writer_defs
      status_defs)

text \<open>
  Three services whose validator succeeds: one whose \<open>json.Marshal\<close> fails, one whose
  room allocator fails, and the test service itself, whose router refuses the first
  connect request; a second client message follows in each envelope.
\<close>

theorem connect_failure_points_witness:
  "(\<exists>st. handlePost
            ((testService (testEnvelope [ClientMessage_ConnectRequest (testConnectRequest ''m''),
                                         ClientMessage_None]))
               \<lparr>json_Marshal := (\<lambda>g. Inl (New ''json: unsupported value''))\<rparr>)
            newState testRequest = (Return, st)
      \<and> status (response st) = Some 500
      \<and> body (response st) = [JsonError 500 ''json: unsupported value''])
   \<and> (\<exists>st. handlePost
            ((testService (testEnvelope [ClientMessage_ConnectRequest (testConnectRequest ''m''),
                                         ClientMessage_None]))
               \<lparr>SelectRoomNode := (\<lambda>room hint. Some (New ''no node available''))\<rparr>)
            newState testRequest = (Return, st)
      \<and> status (response st) = Some 500
      \<and> body (response st) = [JsonError 500 ''no node available''])
   \<and> (\<exists>st. handlePost
            (testService
               (testEnvelope [ClientMessage_ConnectRequest (testConnectRequest ''unroutable''),
                              ClientMessage_None]))
            newState testRequest = (Return, st)
      \<and> status (response st) = Some 500
      \<and> body (response st) = [JsonError 500 ''no route to room''])"
proof -
  have a: "\<exists>st. handlePost
            ((testService (testEnvelope [ClientMessage_ConnectRequest (testConnectRequest ''m''),
                                         ClientMessage_None]))
               \<lparr>json_Marshal := (\<lambda>g. Inl (New ''json: unsupported value''))\<rparr>)
            newState testRequest = (Return, st)
      \<and> status (response st) = Some 500
      \<and> body (response st) = [JsonError 500 ''json: unsupported value'']"
    using connect_failure_points
      [where r = testRequest and data = "''payload''"
         and s = "(testService (testEnvelope [ClientMessage_ConnectRequest
                     (testConnectRequest ''m''), ClientMessage_None]))
                   \<lparr>json_Marshal := (\<lambda>g. Inl (New ''json: unsupported value''))\<rparr>"
         and e = "\<lparr>ClientMessages = [ClientMessage_ConnectRequest
                     (testConnectRequest ''m''), ClientMessage_None], ServerMessages = []\<rparr>"
         and c = "testConnectRequest ''m''" and rest = "[ClientMessage_None]"
         and res = testValidated and code = 200]
    by (auto simp add: test_defs)
  have b: "\<exists>st. handlePost
            ((testService (testEnvelope [ClientMessage_ConnectRequest (testConnectRequest ''m''),
                                         ClientMessage_None]))
               \<lparr>SelectRoomNode := (\<lambda>room hint. Some (New ''no node available''))\<rparr>)
            newState testRequest = (Return, st)
      \<and> status (response st) = Some 500
      \<and> body (response st) = [JsonError 500 ''no node available'']"
    using connect_failure_points
      [where r = testRequest and data = "''payload''"
         and s = "(testService (testEnvelope [ClientMessage_ConnectRequest
                     (testConnectRequest ''m''), ClientMessage_None]))
                   \<lparr>SelectRoomNode := (\<lambda>room hint. Some (New ''no node available''))\<rparr>"
         and e = "\<lparr>ClientMessages = [ClientMessage_ConnectRequest
                     (testConnectRequest ''m''), ClientMessage_None], ServerMessages = []\<rparr>"
         and c = "testConnectRequest ''m''" and rest = "[ClientMessage_None]"
         and res = testValidated and code = 200]
    by (auto simp add: test_defs)
  have c: "\<exists>st. handlePost
            (testService
               (testEnvelope [ClientMessage_ConnectRequest (testConnectRequest ''unroutable''),
                              ClientMessage_None]))
            newState testRequest = (Return, st)
      \<and> status (response st) = Some 500
      \<and> body (response st) = [JsonError 500 ''no route to room'']"
    using connect_failure_points
      [where r = testRequest and data = "''payload''"
         and s = "testService (testEnvelope [ClientMessage_ConnectRequest
                     (testConnectRequest ''unroutable''), ClientMessage_None])"
         and e = "\<lparr>ClientMessages = [ClientMessage_ConnectRequest
                     (testConnectRequest ''unroutable''), ClientMessage_None],
                   ServerMessages = []\<rparr>"
         and c = "testConnectRequest ''unroutable''" and rest = "[ClientMessage_None]"
         and res = testValidated and code = 200]
    by (auto simp add: test_defs)
  from a b c show ?thesis by blast
qed

text \<open>
  Claim C6 at an envelope of two connect requests. The validator succeeds on both, and
  the router forwards the first and refuses the second. The handler has no exit from the
  loop after the successful connect: the second request is validated, placed and routed,
  and the handler reports the failure of the router with the status 500. The first
  response has already fixed the status 200, so the status stays 200 and the error is
  appended to the encoded connect response in the body.
\<close>

theorem connect_failure_after_success:
  "ValidateConnectRequest
     (testService (testEnvelope [ClientMessage_ConnectRequest (testConnectRequest ''m''),
                                 ClientMessage_ConnectRequest (testConnectRequest ''unroutable'')]))
     testRequest (MkLimitConfig [])
     \<lparr>metadata = Metadata (testConnectRequest ''unroutable''),
      attributes = ParticipantAttributes (testConnectRequest ''unroutable'')\<rparr>
     = Inr (testValidated, 200)
   \<and> HandleParticipantConnectRequest
       (testService (testEnvelope [ClientMessage_ConnectRequest (testConnectRequest ''m''),
                                   ClientMessage_ConnectRequest (testConnectRequest ''unroutable'')]))
       ''alpha'' ''p1''
       \<lparr>GrantsJson = ''p1'', CreateRoom = None,
        ConnectRequest = testConnectRequest ''unroutable''\<rparr>
     = Inl (New ''no route to room'')
   \<and> fst (handlePost
       (testService (testEnvelope [ClientMessage_ConnectRequest (testConnectRequest ''m''),
                                   ClientMessage_ConnectRequest (testConnectRequest ''unroutable'')]))
       newState testRequest) = Return
   \<and> status (response (snd (handlePost
       (testService (testEnvelope [ClientMessage_ConnectRequest (testConnectRequest ''m''),
                                   ClientMessage_ConnectRequest (testConnectRequest ''unroutable'')]))
       newState testRequest))) = Some 200
   \<and> body (response (snd (handlePost
       (testService (testEnvelope [ClientMessage_ConnectRequest (testConnectRequest ''m''),
                                   ClientMessage_ConnectRequest (testConnectRequest ''unroutable'')]))
       newState testRequest)))
     = [Bytes ''<envelope>'', JsonError 500 ''no route to room'']"
  by (simp add: handlePost_def handleClientMessage_def validateInternal_def
      logConnectResponse_def connectResponseMessage_def writer_defs status_defs test_defs)

text \<open>
  Claim C1 at an envelope of two client messages, the first with no variant set and the
  second a connect request. The default case reports the unknown message type with
  status 400 and does not return: the loop goes on to the connect request, calls the
  validator, the room allocator and the router for it, and appends the connect response
  to the error body. After the loop the handler calls \<open>WriteHeader\<close> with 200; the
  status, fixed at 400, stays.
\<close>

theorem unknown_message_does_not_stop:
  "handlePost
     (testService (testEnvelope [ClientMessage_None,
                                 ClientMessage_ConnectRequest (testConnectRequest ''m'')]))
     newState testRequest
   = (Return,
      \<lparr>response =
         \<lparr>header = [(''Content-type'', ''application/x-protobuf'')],
          status = Some 400,
          body = [JsonError 400 ''unknown message type, message: <nil>'',
                  Bytes ''<envelope>'']\<rparr>,
       calls =
         [Call_ReadAll, Call_Unmarshal ''payload'',
          Call_HandleErrorJson 400 (Some (errUnknownMessage ClientMessage_None)),
          Call_ValidateConnectRequest \<lparr>metadata = ''m'', attributes = Map.empty\<rparr>,
          Call_json_Marshal testGrants,
          Call_AugmentClientInfo None,
          Call_SelectRoomNode ''alpha'' '''',
          Call_HandleParticipantConnectRequest ''alpha'' ''p1''
            \<lparr>GrantsJson = ''p1'', CreateRoom = None,
             ConnectRequest = testConnectRequest ''m''\<rparr>,
          Call_Marshal (connectResponseMessage (Some testConnectResponse))]\<rparr>)"
  by (simp add: handlePost_def handleClientMessage_def validateInternal_def
      logConnectResponse_def connectResponseMessage_def writer_defs status_defs test_defs
      errUnknownMessage_def errUnknownMessageType_def)

end
